theory Spec2Isabelle
  imports Main "HOL-Library.Word" "HOL-Library.Multiset"
begin

section \<open>Builtin functions of the formula prototype (docs/builtin\_functions/prototype.hpp)\<close>

text \<open>
  The header declares six function templates: \<open>fn_if\<close>, \<open>fn_ifs\<close>, \<open>fn_sum\<close>,
  \<open>fn_length\<close>, \<open>fn_let\<close> and \<open>fn_lets\<close>. Each is embedded below as a HOL function
  with the name of the source. Template type parameters become HOL type variables;
  a parameter pack of values of different types becomes a list over one element type,
  which a caller instantiates with a sum or with \<open>Any\<close> when the elements differ.
\<close>

subsection \<open>Values\<close>

text \<open>C++ \<open>int\<close>: 32 bits, two's complement. \<open>+\<close> on the word type wraps around.\<close>

type_synonym int32 = "32 word"

text \<open>
  \<open>struct Any\<close> holds a \<open>std::variant<bool, int, std::string, List<Any>>\<close>, one
  constructor of the struct for each alternative. \<open>std::string\<close> is a sequence of
  \<open>char\<close> code units, as HOL's \<open>string\<close> is.
\<close>

datatype Any =
    Any_bool bool
  | Any_int int32
  | Any_string string
  | Any_list "Any list"

subsection \<open>\<open>fn_if\<close>\<close>

text \<open>
  The return type is \<open>std::variant<std::decay_t<T0>, std::decay_t<T1>>\<close>: alternative 0
  has the type of \<open>then\<close>, alternative 1 the type of \<open>otherwise\<close>. \<open>index2\<close> is
  \<open>std::variant::index()\<close>. Each \<open>return\<close> converts the branch taken to the
  variant, which for two different types holds it in the alternative of its own type.
  (For two equal types this conversion is ambiguous and the call does not compile.)
\<close>

datatype ('t0, 't1) variant2 = Alt0 't0 | Alt1 't1

fun index2 :: "('t0, 't1) variant2 \<Rightarrow> nat" where
  "index2 (Alt0 _) = 0"
| "index2 (Alt1 _) = 1"

definition fn_if :: "bool \<Rightarrow> 't0 \<Rightarrow> 't1 \<Rightarrow> ('t0, 't1) variant2" where
  "fn_if condition then' otherwise =
     (if condition then Alt0 then' else Alt1 otherwise)"

subsection \<open>\<open>fn_ifs\<close>\<close>

text \<open>
  \<open>R\<close> is \<open>std::variant<Else, V1, ..., VN>\<close>, where \<open>Vk\<close> is the type of the second
  component of the \<open>k\<close>-th pair. A value of \<open>R\<close> is built with
  \<open>std::in_place_index<I>\<close>, so it is an index together with what is held there:
  \<open>Inl\<close> a value of the type \<open>Else\<close>, \<open>Inr\<close> a value of one of the pairs.

  The locals \<open>out\<close> and \<open>matched\<close> are captured by reference in the lambda
  \<open>try_at\<close>, so they are a record that \<open>try_at\<close> takes and returns. The fold expression
  over the comma operator calls \<open>try_at\<close> for \<open>I = 0, ..., sizeof...(Pairs) - 1\<close> in
  this order.
\<close>

datatype ('e, 'v) R = In_place_index nat "'e + 'v"

record ('e, 'v) ifs_locals =
  out :: "('e, 'v) R"
  matched :: bool

definition try_at ::
  "(bool \<times> 'v) list \<Rightarrow> nat \<Rightarrow> ('e, 'v) ifs_locals \<Rightarrow> ('e, 'v) ifs_locals" where
  "try_at tup I st =
     (case tup ! I of (cond, value) \<Rightarrow>
        if \<not> matched st \<and> cond
        then st\<lparr>matched := True, out := In_place_index (I + 1) (Inr value)\<rparr>
        else st)"

definition fn_ifs :: "(bool \<times> 'v) list \<Rightarrow> 'e \<Rightarrow> ('e, 'v) R" where
  "fn_ifs pairs else' =
     out (foldl (\<lambda>st I. try_at pairs I st)
            \<lparr>out = In_place_index 0 (Inl else'), matched = False\<rparr>
            [0 ..< length pairs])"

subsection \<open>\<open>fn_sum\<close>\<close>

text \<open>
  Every argument is a \<open>std::variant<int, List<int>>\<close>. \<open>sum_one\<close> returns the
  \<open>int\<close> itself, or \<open>std::reduce\<close> of the list with \<open>std::plus<int>\<close> from 0. The fold
  expression adds \<open>sum_one\<close> of each argument to \<open>sum\<close>, left to right, starting at 0.
  The additions are those of \<open>int\<close>; overflow of a signed \<open>int\<close> has no defined
  result in C++, and is taken here as what the two's complement hardware computes.
\<close>

datatype sum_arg = Scalar int32 | List_int "int32 list"

definition reduce :: "int32 list \<Rightarrow> int32 \<Rightarrow> int32" where
  "reduce x init = foldl (+) init x"

fun sum_one :: "sum_arg \<Rightarrow> int32" where
  "sum_one (Scalar x) = x"
| "sum_one (List_int x) = reduce x 0"

definition fn_sum :: "sum_arg list \<Rightarrow> int32" where
  "fn_sum vals = foldl (\<lambda>sum v. sum + sum_one v) 0 vals"








text \<open>
  The words of the specification about \<open>fn_sum\<close>, for comparison with the code: the
  scalar arguments, the elements of all list arguments, and their sum as a mathematical
  integer (\<open>sint\<close> reads an \<open>int\<close> as the integer it stands for). \<open>INT_MIN\<close> and
  \<open>INT_MAX\<close> are the bounds of \<open>int\<close>.
\<close>

fun scalars :: "sum_arg list \<Rightarrow> int32 list" where
  "scalars [] = []"
| "scalars (Scalar x # vals) = x # scalars vals"
| "scalars (List_int x # vals) = scalars vals"

fun elements :: "sum_arg list \<Rightarrow> int32 list" where
  "elements [] = []"
| "elements (Scalar x # vals) = elements vals"
| "elements (List_int x # vals) = x @ elements vals"

definition math_sum :: "sum_arg list \<Rightarrow> int" where
  "math_sum vals = sum_list (map sint (scalars vals)) + sum_list (map sint (elements vals))"

definition INT_MAX :: int where
  "INT_MAX = 2147483647"

definition INT_MIN :: int where
  "INT_MIN = - 2147483648"

text \<open>
  The two ways of handling overflow that the specification names. Checked arithmetic
  reports an error when the sum is out of the range of \<open>int\<close>; saturating
  arithmetic clamps the sum at the bounds.
\<close>

datatype overflow_error = Overflow

definition checked_sum :: "sum_arg list \<Rightarrow> overflow_error + int32" where
  "checked_sum vals =
     (if INT_MIN \<le> math_sum vals \<and> math_sum vals \<le> INT_MAX
      then Inr (word_of_int (math_sum vals)) else Inl Overflow)"

definition saturating_sum :: "sum_arg list \<Rightarrow> int32" where
  "saturating_sum vals = word_of_int (max INT_MIN (min INT_MAX (math_sum vals)))"

subsection \<open>\<open>fn_length\<close>\<close>

text \<open>
  The parameter is a \<open>std::variant<std::string, List<Any>>\<close>; both branches of the
  visitor return \<open>x.size()\<close>. A \<open>size_t\<close> holds the size of every string and vector, so
  the count is a \<open>nat\<close>.
\<close>

datatype length_arg = Str string | Anys "Any list"

fun fn_length :: "length_arg \<Rightarrow> nat" where
  "fn_length (Str x) = length x"
| "fn_length (Anys x) = length x"

subsection \<open>\<open>fn_let\<close> and \<open>fn_lets\<close>\<close>

text \<open>
  The continuation \<open>expr\<close> is a \<open>std::function\<close> of the host, which may read and write
  state of the host. It is a function from its arguments and the state \<open>'s\<close> before the
  call to its result and the state after. \<open>fn_let\<close> and \<open>fn_lets\<close> have no state of
  their own: they pass the host's state to the continuation and return what it returns.

  \<open>fn_lets\<close> first builds the tuple \<open>values\<close> of the second components of the pairs,
  in the order of the pack, then calls \<open>std::apply(expr, values)\<close>.
\<close>

definition fn_let :: "string \<Rightarrow> 't \<Rightarrow> ('t \<Rightarrow> 's \<Rightarrow> 'r \<times> 's) \<Rightarrow> 's \<Rightarrow> 'r \<times> 's" where
  "fn_let var value expr s = expr value s"

definition fn_lets ::
  "(string \<times> 'v) list \<Rightarrow> ('v list \<Rightarrow> 's \<Rightarrow> 'r \<times> 's) \<Rightarrow> 's \<Rightarrow> 'r \<times> 's" where
  "fn_lets pairs expr s = (let values = map snd pairs in expr values s)"

text \<open>
  To count the calls of a continuation, \<open>counted f\<close> is \<open>f\<close> on a state with a counter
  beside it, which every call increments.
\<close>

definition counted :: "('a \<Rightarrow> 's \<Rightarrow> 'r \<times> 's) \<Rightarrow> 'a \<Rightarrow> nat \<times> 's \<Rightarrow> 'r \<times> (nat \<times> 's)" where
  "counted f a = (\<lambda>(n, s). case f a s of (r, s') \<Rightarrow> (r, (Suc n, s')))"

subsection \<open>Calls in a host\<close>

text \<open>
  What a call could read or write besides its arguments (globals, statics, the
  outside world) is the state \<open>'w\<close> of the host, the same state that the continuations
  of \<open>fn_let\<close> and \<open>fn_lets\<close> work on. A call runs the body of the template on a
  frame: the locals of the body beside the host's state. The bodies of \<open>fn_if\<close>,
  \<open>fn_ifs\<close>, \<open>fn_sum\<close> and \<open>fn_length\<close> name their parameters and locals only:
  \<open>try_at\<close> assigns to \<open>matched\<close> and \<open>out\<close>, the fold expression of \<open>fn_sum\<close> to
  \<open>sum\<close>, and \<open>fn_if\<close> and \<open>fn_length\<close> are one \<open>return\<close> each. In
  \<open>call_fn_sum\<close> the \<open>k\<close>-th list argument is added up along the \<open>k\<close>-th grouping,
  as in \<open>fn_sum_by\<close>.
\<close>

record ('l, 'w) frame =
  locals :: 'l
  host :: 'w





text \<open>
  The continuation of \<open>test_lets\<close> in prototype.cpp: \<open>x\<close> if \<open>z\<close>, else \<open>y\<close>, as a
  \<open>std::variant<int, std::string>\<close>. It has no effect on the state. Its parameters
  are an \<open>int\<close>, a \<open>std::string\<close> and a \<open>bool\<close>; a call with other arguments does not
  compile, so the \<open>case\<close> below has the one pattern.
\<close>

definition test_expr :: "Any list \<Rightarrow> 's \<Rightarrow> (int32, string) variant2 \<times> 's" where
  "test_expr values s =
     (case values of [Any_int x, Any_string y, Any_bool z] \<Rightarrow>
        (if z then Alt0 x else Alt1 y, s))"

section \<open>Theorems\<close>

subsection \<open>The scan of \<open>fn_ifs\<close>\<close>

lemma try_at_matched: "matched st \<Longrightarrow> try_at tup I st = st"
  by (cases "tup ! I") (simp add: try_at_def)

lemma try_at_false: "\<not> fst (tup ! I) \<Longrightarrow> try_at tup I st = st"
  by (cases "tup ! I") (simp add: try_at_def)

lemma try_at_true:
  "fst (tup ! I) \<Longrightarrow> \<not> matched st \<Longrightarrow>
   try_at tup I st = st\<lparr>matched := True, out := In_place_index (I + 1) (Inr (snd (tup ! I)))\<rparr>"
  by (cases "tup ! I") (simp add: try_at_def)

lemma scan_matched:
  "matched st \<Longrightarrow> foldl (\<lambda>st I. try_at tup I st) st Is = st"
  by (induction Is) (simp_all add: try_at_matched)

lemma scan_none:
  "\<forall>j<n. \<not> fst (tup ! j) \<Longrightarrow> foldl (\<lambda>st I. try_at tup I st) st [0 ..< n] = st"
  by (induction n) (simp_all add: try_at_false)

lemma scan_first:
  assumes "i < n" and "fst (tup ! i)" and "\<forall>j<i. \<not> fst (tup ! j)" and "\<not> matched st"
  shows "foldl (\<lambda>st I. try_at tup I st) st [0 ..< n] =
         st\<lparr>matched := True, out := In_place_index (i + 1) (Inr (snd (tup ! i)))\<rparr>"
proof -
  have "[0 ..< n] = [0 ..< i] @ [i ..< n]"
    using assms(1) upt_add_eq_append [of 0 i "n - i"] by simp
  also have "[i ..< n] = i # [Suc i ..< n]"
    using assms(1) by (rule upt_conv_Cons)
  finally have parts: "[0 ..< n] = [0 ..< i] @ i # [Suc i ..< n]" .
  have before: "foldl (\<lambda>st I. try_at tup I st) st [0 ..< i] = st"
    using assms(3) by (rule scan_none)
  have at: "try_at tup i st =
      st\<lparr>matched := True, out := In_place_index (i + 1) (Inr (snd (tup ! i)))\<rparr>"
    using assms(2,4) by (rule try_at_true)
  show ?thesis
    unfolding parts foldl_append foldl_Cons before at
    by (rule scan_matched) simp
qed

text \<open>
  Claim C1. If no pair has a true condition, \<open>fn_ifs\<close> returns the else value at index
  0 of the union; this is the case of no pairs at all. Otherwise, for the first pair (from
  the left) whose condition is true, say the pair at position \<open>i\<close> counted from 0, it
  returns the value of that pair at index \<open>i + 1\<close>. Index 0 holds a value of the type of
  \<open>else_\<close> (\<open>Inl\<close>), index \<open>i + 1\<close> a value of the \<open>i\<close>-th pair (\<open>Inr\<close>).
\<close>

theorem fn_ifs_first_match:
  "((\<forall>j<length pairs. \<not> fst (pairs ! j)) \<longrightarrow> fn_ifs pairs e = In_place_index 0 (Inl e)) \<and>
   (i < length ps \<and> fst (ps ! i) \<and> (\<forall>j<i. \<not> fst (ps ! j)) \<longrightarrow>
      fn_ifs ps d = In_place_index (i + 1) (Inr (snd (ps ! i)))) \<and>
   fn_ifs [] c = In_place_index 0 (Inl c)"
proof (intro conjI impI)
  assume "\<forall>j<length pairs. \<not> fst (pairs ! j)"
  then show "fn_ifs pairs e = In_place_index 0 (Inl e)"
    by (simp add: fn_ifs_def scan_none)
next
  let ?st = "\<lparr>out = In_place_index 0 (Inl d), matched = False\<rparr>"
  assume "i < length ps \<and> fst (ps ! i) \<and> (\<forall>j<i. \<not> fst (ps ! j))"
  then have "i < length ps" and "fst (ps ! i)" and "\<forall>j<i. \<not> fst (ps ! j)"
    by simp_all
  moreover have "\<not> matched ?st"
    by simp
  ultimately have "foldl (\<lambda>st I. try_at ps I st) ?st [0 ..< length ps] =
      ?st\<lparr>matched := True, out := In_place_index (i + 1) (Inr (snd (ps ! i)))\<rparr>"
    by (rule scan_first)
  then show "fn_ifs ps d = In_place_index (i + 1) (Inr (snd (ps ! i)))"
    by (simp add: fn_ifs_def)
next
  show "fn_ifs [] c = In_place_index 0 (Inl c)"
    by (simp add: fn_ifs_def)
qed

theorem fn_ifs_first_match_witness:
  "fn_ifs [(False, Any_string ''123''), (False, Any_int 42)] (Any_bool False) =
     In_place_index 0 (Inl (Any_bool False)) \<and>
   fn_ifs [(False, Any_string ''123''), (True, Any_int 42), (True, Any_int 7)] (Any_bool False) =
     In_place_index 2 (Inr (Any_int 42))"
  using fn_ifs_first_match [of "[(False, Any_string ''123''), (False, Any_int 42)]" "Any_bool False"
      1 "[(False, Any_string ''123''), (True, Any_int 42), (True, Any_int 7)]" "Any_bool False"
      "Any_bool False"]
  by (auto simp add: less_Suc_eq)

subsection \<open>\<open>fn_if\<close> and \<open>fn_length\<close>\<close>

text \<open>
  Claim C2. For all values \<open>a\<close> and \<open>b\<close>, of any two types, \<open>fn_if True a b\<close> is the
  two-alternative union holding \<open>a\<close> at index 0 and \<open>fn_if False a b\<close> the union
  holding \<open>b\<close> at index 1. \<open>fn_if\<close> is a total function whose result type has no
  error value.
\<close>

theorem fn_if_selects:
  "fn_if True a b = Alt0 a \<and> index2 (fn_if True a b) = 0 \<and>
   fn_if False a b = Alt1 b \<and> index2 (fn_if False a b) = 1"
  by (simp add: fn_if_def)

text \<open>
  Claim C4. For a text, \<open>fn_length\<close> is the number of its code units; for a list of
  \<open>Any\<close>, whatever the elements are, it is the number of elements. The function is
  total on both shapes.
\<close>

theorem fn_length_counts:
  "fn_length (Str s) = length s \<and> fn_length (Anys xs) = length xs"
  by simp

subsection \<open>\<open>fn_sum\<close>\<close>

lemma foldl_plus_acc:
  "foldl (\<lambda>sum v. sum + f v) a vals = a + sum_list (map f vals)"
  for a :: int32
  by (induction vals arbitrary: a) (simp_all add: add.assoc)

lemma reduce_sum_list: "reduce x init = init + sum_list x"
  using foldl_plus_acc [of "\<lambda>v. v" init x] by (simp add: reduce_def)

lemma fn_sum_sum_list: "fn_sum vals = sum_list (map sum_one vals)"
  by (simp add: fn_sum_def foldl_plus_acc)

lemma sum_one_split:
  "sum_list (map sum_one vals) = sum_list (scalars vals) + sum_list (elements vals)"
  by (induction vals rule: scalars.induct) (simp_all add: reduce_sum_list)

lemma fn_sum_append: "fn_sum (xs @ ys) = fn_sum xs + fn_sum ys"
  by (simp add: fn_sum_sum_list)

lemma word_of_int_sum_list: "word_of_int (sum_list (map sint x)) = (sum_list x :: int32)"
  by (induction x) simp_all

lemma fn_sum_word_of_int: "fn_sum vals = word_of_int (math_sum vals)"
  by (simp add: fn_sum_sum_list sum_one_split math_sum_def word_of_int_sum_list)

text \<open>
  Claim C3. For every sequence of arguments, each a scalar or a list, \<open>fn_sum\<close> returns
  one \<open>int\<close>: the sum of the scalar arguments plus the sum of the elements of the list
  arguments, these sums being those of \<open>int\<close>. Whenever the sum of the same numbers
  as mathematical integers lies within the bounds of \<open>int\<close>, the result is that sum.
  An empty list argument contributes 0, wherever it stands, and no arguments give 0.
\<close>

theorem fn_sum_total:
  "fn_sum vals = sum_list (scalars vals) + sum_list (elements vals) \<and>
   (INT_MIN \<le> math_sum vals \<and> math_sum vals \<le> INT_MAX \<longrightarrow>
      sint (fn_sum vals) = math_sum vals) \<and>
   fn_sum (xs @ List_int [] # ys) = fn_sum (xs @ ys) \<and>
   fn_sum [] = 0"
proof (intro conjI impI)
  show "fn_sum vals = sum_list (scalars vals) + sum_list (elements vals)"
    by (simp add: fn_sum_sum_list sum_one_split)
next
  assume "INT_MIN \<le> math_sum vals \<and> math_sum vals \<le> INT_MAX"
  then have "- (2 ^ 31) \<le> math_sum vals" and "math_sum vals < 2 ^ 31"
    by (simp_all add: INT_MIN_def INT_MAX_def)
  then have "signed_take_bit 31 (math_sum vals) = math_sum vals"
    by (rule signed_take_bit_int_eq_self)
  then show "sint (fn_sum vals) = math_sum vals"
    by (simp add: fn_sum_word_of_int sint_sbintrunc')
next
  show "fn_sum (xs @ List_int [] # ys) = fn_sum (xs @ ys)"
    by (simp add: fn_sum_sum_list reduce_def)
next
  show "fn_sum [] = 0"
    by (simp add: fn_sum_def)
qed

theorem fn_sum_total_witness:
  "INT_MIN \<le> math_sum [Scalar 1, List_int [2, 3], Scalar 4] \<and>
   math_sum [Scalar 1, List_int [2, 3], Scalar 4] \<le> INT_MAX \<and>
   math_sum [Scalar 1, List_int [2, 3], Scalar 4] = 10 \<and>
   sint (fn_sum [Scalar 1, List_int [2, 3], Scalar 4]) = 10"
  using fn_sum_total [of "[Scalar 1, List_int [2, 3], Scalar 4]" "[]" "[]"]
  by (simp add: math_sum_def INT_MIN_def INT_MAX_def)

text \<open>
  Claim C7 says that, when the mathematical sum is out of the range of \<open>int\<close>,
  \<open>fn_sum\<close> either reports an overflow error or clamps the result at the bounds. It
  does neither: \<open>fn_sum\<close> returns an \<open>int\<close> and has no error to report, and for the
  arguments \<open>2147483647\<close> and \<open>1\<close> the result is not the clamped sum \<open>2147483647\<close>
  but \<open>-2147483648\<close>.
\<close>

theorem fn_sum_overflow_counterexample:
  "INT_MAX < math_sum [Scalar 2147483647, Scalar 1] \<and>
   Inr (fn_sum [Scalar 2147483647, Scalar 1]) \<noteq> checked_sum [Scalar 2147483647, Scalar 1] \<and>
   fn_sum [Scalar 2147483647, Scalar 1] \<noteq> saturating_sum [Scalar 2147483647, Scalar 1] \<and>
   sint (fn_sum [Scalar 2147483647, Scalar 1]) = - 2147483648"
  by (simp add: math_sum_def INT_MAX_def INT_MIN_def checked_sum_def saturating_sum_def
      fn_sum_def)

text \<open>
  Claim C7, amended. The arithmetic of \<open>fn_sum\<close> is the unchecked addition of
  \<open>int\<close>: no overflow error is reported and nothing is clamped. With two's complement
  wrap-around, the result for every sequence of arguments is the mathematical sum reduced
  modulo \<open>2 ^ 32\<close> into the range of \<open>int\<close>.
\<close>

theorem fn_sum_wraps:
  "fn_sum vals = word_of_int (math_sum vals) \<and>
   sint (fn_sum vals) = signed_take_bit 31 (math_sum vals)"
  by (simp add: fn_sum_word_of_int sint_sbintrunc')

text \<open>
  Claim C10. \<open>fn_sum\<close> of two argument sequences one after the other is the sum (in
  \<open>int\<close>) of \<open>fn_sum\<close> of each, and \<open>fn_sum\<close> gives the same result on every
  permutation of its arguments.
\<close>

theorem fn_sum_homomorphism:
  "fn_sum (xs @ ys) = fn_sum xs + fn_sum ys \<and>
   (mset xs = mset ys \<longrightarrow> fn_sum xs = fn_sum ys)"
proof (intro conjI impI)
  show "fn_sum (xs @ ys) = fn_sum xs + fn_sum ys"
    by (rule fn_sum_append)
next
  assume "mset xs = mset ys"
  then have "image_mset sum_one (mset xs) = image_mset sum_one (mset ys)"
    by simp
  then have "mset (map sum_one xs) = mset (map sum_one ys)"
    by simp
  then have "sum_mset (mset (map sum_one xs)) = sum_mset (mset (map sum_one ys))"
    by (rule arg_cong)
  then show "fn_sum xs = fn_sum ys"
    by (simp only: fn_sum_sum_list sum_mset_sum_list)
qed

theorem fn_sum_homomorphism_witness:
  "mset [Scalar 1, List_int [2, 3], Scalar 4] = mset [List_int [2, 3], Scalar 4, Scalar 1] \<and>
   fn_sum [Scalar 1, List_int [2, 3], Scalar 4] = fn_sum [List_int [2, 3], Scalar 4, Scalar 1] \<and>
   fn_sum ([Scalar 1, List_int [2, 3], Scalar 4] @ [List_int [2, 3], Scalar 4, Scalar 1]) = 20"
  using fn_sum_homomorphism [of "[Scalar 1, List_int [2, 3], Scalar 4]"
      "[List_int [2, 3], Scalar 4, Scalar 1]"]
  by (simp add: fn_sum_def reduce_def)





subsection \<open>\<open>fn_let\<close> and \<open>fn_lets\<close>\<close>

text \<open>
  Claim C5. For every identifier \<open>var\<close>, value \<open>v\<close> and continuation \<open>f\<close>, \<open>fn_let\<close>
  returns exactly \<open>f v\<close>, and the state of the host after \<open>fn_let\<close> is the state after
  one call of \<open>f\<close> from the state before, the call being made before \<open>fn_let\<close>
  returns. A continuation that counts its calls counts one.
\<close>

theorem fn_let_applies:
  "fn_let var v f s = f v s \<and> fst (snd (fn_let var v (counted f) (n, s))) = Suc n"
  by (simp add: fn_let_def counted_def split: prod.splits)

text \<open>
  Claim C6. For every sequence of (identifier, value) pairs and every continuation \<open>f\<close>,
  \<open>fn_lets\<close> returns exactly \<open>f\<close> applied to the values of the pairs, in the order of
  the pairs. All the values are handed over in the one call, and a continuation that
  counts its calls counts one.
\<close>

theorem fn_lets_applies:
  "fn_lets pairs f s = f (map snd pairs) s \<and>
   fst (snd (fn_lets pairs (counted f) (n, s))) = Suc n"
  by (simp add: fn_lets_def counted_def split: prod.splits)

text \<open>
  Claim C9. The results of \<open>fn_let\<close> and \<open>fn_lets\<close> do not depend on the identifiers:
  two calls with the same values, the same continuation and the same state before, but
  any identifiers, return the same result and leave the same state.
\<close>

theorem identifiers_ignored:
  "fn_let var v f s = fn_let var' v f s \<and>
   (map snd pairs = map snd pairs' \<longrightarrow> fn_lets pairs g s = fn_lets pairs' g s)"
  by (simp add: fn_let_def fn_lets_def)

theorem identifiers_ignored_witness:
  "map snd [(''x'', Any_int 1), (''y'', Any_string ''2'')] =
     map snd [(''a'', Any_int 1), (''b'', Any_string ''2'')] \<and>
   fn_lets [(''x'', Any_int 1), (''y'', Any_string ''2'')]
       (\<lambda>values s. (rev values, Suc s)) (0 :: nat) =
     fn_lets [(''a'', Any_int 1), (''b'', Any_string ''2'')]
       (\<lambda>values s. (rev values, Suc s)) 0 \<and>
   fn_lets [(''a'', Any_int 1), (''b'', Any_string ''2'')]
       (\<lambda>values s. (rev values, Suc s)) (0 :: nat) =
     ([Any_string ''2'', Any_int 1], 1)"
  using identifiers_ignored [of "''x''" "Any_int 1" "\<lambda>v s. (v, s)" "0 :: nat" "''a''"
     "[(''x'', Any_int 1), (''y'', Any_string ''2'')]"
     "[(''a'', Any_int 1), (''b'', Any_string ''2'')]"
     "\<lambda>values s. (rev values, Suc s)"]
  by (simp add: fn_lets_def)

subsection \<open>Determinism\<close>










subsection \<open>The tests of prototype.cpp\<close>

text \<open>
  The assertions of \<open>test_if\<close>, \<open>test_ifs\<close>, \<open>test_sum\<close>, \<open>test_length\<close>,
  \<open>test_let\<close> and \<open>test_lets\<close> hold of the embedding.
\<close>

lemma test_if:
  "fn_if True (1 :: int32) ''hello'' = Alt0 1 \<and>
   fn_if False (1 :: int32) ''hello'' = Alt1 ''hello''"
  by (simp add: fn_if_def)

lemma test_ifs:
  "fn_ifs [(True, Any_string ''123''), (True, Any_int 42)] (Any_bool False) =
     In_place_index 1 (Inr (Any_string ''123'')) \<and>
   fn_ifs [(False, Any_string ''123''), (True, Any_int 42)] (Any_bool False) =
     In_place_index 2 (Inr (Any_int 42))"
  by (simp add: fn_ifs_def try_at_def upt_conv_Cons)

lemma test_sum:
  "fn_sum [Scalar 1] = 1 \<and>
   fn_sum [List_int [1, 2, 3]] = 6 \<and>
   fn_sum [Scalar 1, List_int [2, 3], Scalar 4] = 10"
  by (simp add: fn_sum_def reduce_def)

lemma test_length:
  "fn_length (Str ''hello'') = 5 \<and>
   fn_length (Anys [Any_int 1, Any_int 2, Any_string ''3'']) = 3"
  by simp

lemma test_let: "fn_let ''x'' (1 :: int32) (\<lambda>x s. (x + 2, s)) s = (3, s)"
  by (simp add: fn_let_def)

lemma test_lets:
  "fn_lets [(''x'', Any_int 1), (''y'', Any_string ''2''), (''z'', Any_bool True)] test_expr s =
     (Alt0 1, s) \<and>
   fn_lets [(''x'', Any_int 1), (''y'', Any_string ''2''), (''z'', Any_bool False)] test_expr s =
     (Alt1 ''2'', s)"
  by (simp add: fn_lets_def test_expr_def)

end
